theory Spec2Isabelle
  imports Main "HOL-Library.Sublist"
begin

section \<open>Setup Taskfile action: a shallow embedding of src/index.ts\<close>

text \<open>
  The action is one asynchronous routine, \<open>run\<close>, that calls a handful of external
  collaborators (the runner's core library, the tool cache, the release registry client
  and the process launcher). The embedding keeps the source's functions and their order
  of statements. Three things are made explicit:
  \<^item> a thrown JavaScript value is a value of type \<open>thrown\<close>, and every function that can
    throw returns \<open>thrown + 'a\<close>;
  \<^item> every call of a collaborator that acts on the outside world is recorded, in order,
    in a list of \<open>event\<close>s that is threaded through the run;
  \<^item> what the collaborators answer is a parameter, the record \<open>env\<close>.
  JavaScript strings are modelled as \<open>string\<close>.
\<close>

subsection \<open>Thrown values\<close>

text \<open>
  \<open>JsError name message\<close> is an instance of \<open>Error\<close> (or of a subclass) with its
  \<open>name\<close> and \<open>message\<close> properties; \<open>new Error(m)\<close> is \<open>JsError ''Error'' m\<close>.
  \<open>NonError s\<close> is any other thrown value, \<open>s\<close> being its conversion to a string.
\<close>

datatype thrown = JsError string string | NonError string

text \<open>The conversion \<open>`${error}`\<close>: \<open>Error.prototype.toString\<close> for an \<open>Error\<close>.\<close>

fun toString :: "thrown \<Rightarrow> string" where
  "toString (JsError name message) =
     (if name = [] then message else if message = [] then name else name @ '': '' @ message)"
| "toString (NonError s) = s"

subsection \<open>String primitives\<close>

text \<open>
  \<open>String.prototype.toLowerCase\<close> on the letters A to Z. Every other character is left
  as it is; no character outside A to Z is mapped by JavaScript to one of the letters of
  \<open>latest\<close>, the only string the source compares a lower-cased string with.
\<close>

definition toLowerCase_char :: "char \<Rightarrow> char" where
  "toLowerCase_char c =
     (case map_of (zip ''ABCDEFGHIJKLMNOPQRSTUVWXYZ'' ''abcdefghijklmnopqrstuvwxyz'') c of
        Some l \<Rightarrow> l
      | None \<Rightarrow> c)"

definition toLowerCase :: "string \<Rightarrow> string" where
  "toLowerCase s = map toLowerCase_char s"

text \<open>\<open>s.replace(/^v/, '')\<close>: one leading lower-case \<open>v\<close> is removed, if there is one.\<close>

fun replace_leading_v :: "string \<Rightarrow> string" where
  "replace_leading_v [] = []"
| "replace_leading_v (c # cs) = (if c = CHR ''v'' then cs else c # cs)"

text \<open>\<open>String.prototype.trim\<close>, on the ASCII white space and line terminators.\<close>

definition is_space :: "char \<Rightarrow> bool" where
  "is_space c = (c \<in> set [CHR '' '', CHR 0x09, CHR 0x0A, CHR 0x0B, CHR 0x0C, CHR 0x0D])"

definition trim :: "string \<Rightarrow> string" where
  "trim s = rev (dropWhile is_space (rev (dropWhile is_space s)))"

subsection \<open>Constants and the platform record\<close>

definition TOOL_NAME :: string where "TOOL_NAME = ''task''"
definition REPO_OWNER :: string where "REPO_OWNER = ''go-task''"
definition REPO_NAME :: string where "REPO_NAME = ''task''"

record PlatformInfo =
  os :: string
  arch :: string
  ext :: string

subsection \<open>Collaborators and events\<close>

text \<open>The registry client made by \<open>github.getOctokit(token)\<close>, holding its token.\<close>

datatype octokit = Octokit string

text \<open>
  The answers of the outside world. A collaborator is called at most once in a run, so
  an answer that depends on the arguments only loses nothing. \<open>core_getInput\<close>,
  \<open>os_platform\<close> and \<open>os_arch\<close> are what \<open>core.getInput\<close>, \<open>os.platform()\<close> and
  \<open>os.arch()\<close> return. Every other collaborator may throw: \<open>github_getOctokit\<close>
  makes the registry client, \<open>repos_getLatestRelease\<close> answers the \<open>tag_name\<close> of the
  latest release, \<open>tc_find\<close> answers the cached path, or the empty string when the
  cache has no entry, and \<open>exec_exec\<close> answers what the process wrote to its standard
  output. The runner's \<open>core.info\<close>, \<open>core.setOutput\<close> and \<open>core.setFailed\<close> only
  report: they are events, and are taken not to throw.
\<close>

record env =
  core_getInput :: "string \<Rightarrow> string"
  os_platform :: string
  os_arch :: string
  github_getOctokit :: "string \<Rightarrow> thrown + octokit"
  repos_getLatestRelease :: "octokit \<Rightarrow> string \<Rightarrow> string \<Rightarrow> thrown + string"
  tc_find :: "string \<Rightarrow> string \<Rightarrow> thrown + string"
  tc_downloadTool :: "string \<Rightarrow> thrown + string"
  tc_extractZip :: "string \<Rightarrow> thrown + string"
  tc_extractTar :: "string \<Rightarrow> thrown + string"
  tc_cacheDir :: "string \<Rightarrow> string \<Rightarrow> string \<Rightarrow> thrown + string"
  core_addPath :: "string \<Rightarrow> thrown + unit"
  exec_exec :: "string \<Rightarrow> string list \<Rightarrow> thrown + string"

datatype event =
    is_Info: Info string
  | is_GetLatestRelease: GetLatestRelease octokit string string
  | is_Find: Find string string
  | is_DownloadTool: DownloadTool string
  | is_ExtractZip: ExtractZip string
  | is_ExtractTar: ExtractTar string
  | is_CacheDir: CacheDir string string string
  | is_AddPath: AddPath string
  | is_Exec: Exec string "string list"
  | is_SetOutput: SetOutput string string
  | is_SetFailed: SetFailed string

subsection \<open>Actions: a trace of events and a result or a thrown value\<close>

type_synonym 'a action = "event list \<Rightarrow> (thrown + 'a) \<times> event list"

definition returnA :: "'a \<Rightarrow> 'a action" where
  "returnA x t = (Inr x, t)"

definition throwA :: "thrown \<Rightarrow> 'a action" where
  "throwA e t = (Inl e, t)"

text \<open>Sequencing: a thrown value skips the rest.\<close>

definition bindA :: "'a action \<Rightarrow> ('a \<Rightarrow> 'b action) \<Rightarrow> 'b action" where
  "bindA m f t = (case m t of (Inl e, t') \<Rightarrow> (Inl e, t') | (Inr x, t') \<Rightarrow> f x t')"

text \<open>\<open>try { m } catch (error) { h error }\<close>.\<close>

definition catchA :: "'a action \<Rightarrow> (thrown \<Rightarrow> 'a action) \<Rightarrow> 'a action" where
  "catchA m h t = (case m t of (Inl e, t') \<Rightarrow> h e t' | (Inr x, t') \<Rightarrow> (Inr x, t'))"

text \<open>A computation without outside effect that may throw.\<close>

definition liftA :: "thrown + 'a \<Rightarrow> 'a action" where
  "liftA r t = (r, t)"

text \<open>A call of a collaborator: the call is recorded, then its answer is the result.\<close>

definition callA :: "event \<Rightarrow> thrown + 'a \<Rightarrow> 'a action" where
  "callA ev r t = (r, t @ [ev])"

definition emit :: "event \<Rightarrow> unit action" where
  "emit ev = callA ev (Inr ())"

definition info :: "string \<Rightarrow> unit action" where
  "info message = emit (Info message)"

subsection \<open>The functions of index.ts\<close>

text \<open>
  \<open>getPlatformInfo\<close>, of the host's \<open>os.platform()\<close> and \<open>os.arch()\<close>: the first
  \<open>switch\<close> throws before the second one is looked at.
\<close>

definition getPlatformInfo :: "string \<Rightarrow> string \<Rightarrow> thrown + PlatformInfo" where
  "getPlatformInfo platform node_arch =
     (case (if platform = ''linux'' then Inr (''linux'', ''tar.gz'')
            else if platform = ''darwin'' then Inr (''darwin'', ''tar.gz'')
            else if platform = ''win32'' then Inr (''windows'', ''zip'')
            else if platform = ''freebsd'' then Inr (''freebsd'', ''tar.gz'')
            else Inl (JsError ''Error'' (''Unsupported platform: '' @ platform))) of
        Inl e \<Rightarrow> Inl e
      | Inr (taskOs, ext') \<Rightarrow>
          (case (if node_arch = ''x64'' then Inr ''amd64''
                 else if node_arch = ''arm64'' then Inr ''arm64''
                 else if node_arch = ''arm'' then Inr ''arm''
                 else if node_arch = ''ia32'' then Inr ''386''
                 else Inl (JsError ''Error'' (''Unsupported architecture: '' @ node_arch))) of
             Inl e \<Rightarrow> Inl e
           | Inr taskArch \<Rightarrow> Inr \<lparr>os = taskOs, arch = taskArch, ext = ext'\<rparr>))"

text \<open>
  \<open>getLatestVersion\<close>: the client is made outside the \<open>try\<close>; the query and the
  strip of the tag are inside, and whatever they throw is wrapped.
\<close>

definition getLatestVersion :: "env \<Rightarrow> string \<Rightarrow> string action" where
  "getLatestVersion e token =
     bindA (liftA (github_getOctokit e token)) (\<lambda>client.
       catchA
         (bindA (callA (GetLatestRelease client REPO_OWNER REPO_NAME)
                   (repos_getLatestRelease e client REPO_OWNER REPO_NAME)) (\<lambda>tag_name.
            returnA (replace_leading_v tag_name)))
         (\<lambda>error. throwA (JsError ''Error''
                    (''Failed to fetch latest version: '' @ toString error))))"

definition normalizeVersion :: "string \<Rightarrow> string" where
  "normalizeVersion version = replace_leading_v version"

definition getDownloadUrl :: "string \<Rightarrow> PlatformInfo \<Rightarrow> string" where
  "getDownloadUrl version platformInfo =
     ''https://github.com/'' @ REPO_OWNER @ ''/'' @ REPO_NAME @ ''/releases/download/v''
       @ version @ ''/task_'' @ os platformInfo @ ''_'' @ arch platformInfo
       @ ''.'' @ ext platformInfo"

definition downloadAndExtract ::
    "env \<Rightarrow> string \<Rightarrow> string \<Rightarrow> PlatformInfo \<Rightarrow> string action" where
  "downloadAndExtract e url version platformInfo =
     bindA (info (''Downloading Taskfile from '' @ url)) (\<lambda>_.
     bindA (callA (DownloadTool url) (tc_downloadTool e url)) (\<lambda>downloadPath.
     bindA (if ext platformInfo = ''zip''
            then callA (ExtractZip downloadPath) (tc_extractZip e downloadPath)
            else callA (ExtractTar downloadPath) (tc_extractTar e downloadPath))
       (\<lambda>extractedPath.
     callA (CacheDir extractedPath TOOL_NAME version)
       (tc_cacheDir e extractedPath TOOL_NAME version))))"

definition verifyInstallation :: "env \<Rightarrow> unit action" where
  "verifyInstallation e =
     bindA (callA (Exec ''task'' [''--version'']) (exec_exec e ''task'' [''--version'']))
       (\<lambda>output. info (''Taskfile installed: '' @ trim output))"

text \<open>The block of \<open>run\<close> under the comment "Resolve version" (lines 139 to 147).\<close>

definition resolveVersion :: "env \<Rightarrow> string \<Rightarrow> string \<Rightarrow> string action" where
  "resolveVersion e versionInput token =
     (if toLowerCase versionInput = ''latest''
      then bindA (info ''Fetching latest version...'') (\<lambda>_.
           bindA (getLatestVersion e token) (\<lambda>version.
           bindA (info (''Latest version: '' @ version)) (\<lambda>_.
           returnA version)))
      else returnA (normalizeVersion versionInput))"

text \<open>
  The block of \<open>run\<close> under the comment "Check tool cache first" (lines 149 to 160);
  its result is the pair of \<open>toolPath\<close> and \<open>cacheHit\<close>. A JavaScript string is
  truthy when it is not empty.
\<close>

definition checkToolCache ::
    "env \<Rightarrow> string \<Rightarrow> PlatformInfo \<Rightarrow> (string \<times> bool) action" where
  "checkToolCache e version platformInfo =
     bindA (callA (Find TOOL_NAME version) (tc_find e TOOL_NAME version)) (\<lambda>toolPath.
       if toolPath \<noteq> []
       then bindA (info (''Found Taskfile '' @ version @ '' in tool cache'')) (\<lambda>_.
            returnA (toolPath, True))
       else bindA (info (''Taskfile '' @ version @ '' not found in cache, downloading...''))
              (\<lambda>_.
            bindA (downloadAndExtract e (getDownloadUrl version platformInfo) version
                     platformInfo) (\<lambda>cachedPath.
            returnA (cachedPath, False))))"

text \<open>
  The two inputs \<open>run\<close> reads first (lines 133 and 134): \<open>versionInput\<close>, which
  is \<open>latest\<close> when the input is empty, and \<open>token\<close>.
\<close>

definition run_versionInput :: "env \<Rightarrow> string" where
  "run_versionInput e =
     (if core_getInput e ''version'' \<noteq> [] then core_getInput e ''version'' else ''latest'')"

definition run_token :: "env \<Rightarrow> string" where
  "run_token e = core_getInput e ''github-token''"

text \<open>
  The rest of the \<open>try\<close> of \<open>run\<close> (lines 162 to 173), under the comments
  "Add to PATH", "Verify installation" and "Set outputs".
\<close>

definition finishRun :: "env \<Rightarrow> string \<Rightarrow> string \<Rightarrow> bool \<Rightarrow> unit action" where
  "finishRun e version toolPath cacheHit =
     bindA (callA (AddPath toolPath) (core_addPath e toolPath)) (\<lambda>_.
     bindA (info (''Added '' @ toolPath @ '' to PATH'')) (\<lambda>_.
     bindA (verifyInstallation e) (\<lambda>_.
     bindA (emit (SetOutput ''version'' version)) (\<lambda>_.
     bindA (emit (SetOutput ''cache-hit'' (if cacheHit then ''true'' else ''false'')))
       (\<lambda>_.
     info (''Successfully setup Taskfile v'' @ version))))))"

text \<open>The body of the \<open>try\<close> of \<open>run\<close>.\<close>

definition run_try :: "env \<Rightarrow> unit action" where
  "run_try e =
     bindA (liftA (getPlatformInfo (os_platform e) (os_arch e))) (\<lambda>platformInfo.
     bindA (info (''Detected platform: '' @ os platformInfo @ ''/'' @ arch platformInfo))
       (\<lambda>_.
     bindA (resolveVersion e (run_versionInput e) (run_token e)) (\<lambda>version.
     bindA (checkToolCache e version platformInfo) (\<lambda>(toolPath, cacheHit).
     finishRun e version toolPath cacheHit))))"

text \<open>The message \<open>run\<close> reports for what it caught.\<close>

fun failure_message :: "thrown \<Rightarrow> string" where
  "failure_message (JsError name message) = message"
| "failure_message (NonError s) = ''An unexpected error occurred''"

text \<open>\<open>run\<close>, started on the empty trace: the result is the trace of the whole run.\<close>

definition run :: "env \<Rightarrow> event list" where
  "run e = snd (catchA (run_try e) (\<lambda>error. emit (SetFailed (failure_message error))) [])"

subsection \<open>What a trace shows\<close>



text \<open>The events of the installer's download, extraction and cache write.\<close>

definition is_install :: "event \<Rightarrow> bool" where
  "is_install ev =
     (is_DownloadTool ev \<or> is_ExtractZip ev \<or> is_ExtractTar ev \<or> is_CacheDir ev)"

text \<open>The events that reach the network, and those that reach the tool cache.\<close>

definition is_network :: "event \<Rightarrow> bool" where
  "is_network ev = (is_GetLatestRelease ev \<or> is_DownloadTool ev)"

definition is_cache :: "event \<Rightarrow> bool" where
  "is_cache ev = (is_Find ev \<or> is_CacheDir ev)"

subsection \<open>A sample runner\<close>

text \<open>
  A Linux runner on 64-bit x86 that asks for version \<open>v3.46.4\<close>, with an empty tool
  cache, a registry whose latest release is tagged \<open>v3.50.0\<close>, and collaborators that
  all succeed. The closed examples below vary it field by field.
\<close>

definition sample_env :: env where
  "sample_env =
     \<lparr>core_getInput = (\<lambda>k. if k = ''version'' then ''v3.46.4''
                           else if k = ''github-token'' then ''ghs_token'' else []),
      os_platform = ''linux'',
      os_arch = ''x64'',
      github_getOctokit = (\<lambda>tok. Inr (Octokit tok)),
      repos_getLatestRelease = (\<lambda>client owner repo. Inr ''v3.50.0''),
      tc_find = (\<lambda>tool version. Inr []),
      tc_downloadTool = (\<lambda>url. Inr ''/tmp/download''),
      tc_extractZip = (\<lambda>file. Inr ''/tmp/unzipped''),
      tc_extractTar = (\<lambda>file. Inr ''/tmp/untarred''),
      tc_cacheDir = (\<lambda>dir tool version. Inr (''/opt/hostedtoolcache/'' @ tool @ ''/'' @ version)),
      core_addPath = (\<lambda>dir. Inr ()),
      exec_exec = (\<lambda>cmd args. Inr ''Task version: v3.46.4'')\<rparr>"

text \<open>The definitions a closed example unfolds to run the model.\<close>

lemmas run_defs = run_def run_try_def finishRun_def resolveVersion_def checkToolCache_def
  getLatestVersion_def downloadAndExtract_def verifyInstallation_def getPlatformInfo_def
  normalizeVersion_def getDownloadUrl_def run_versionInput_def run_token_def
  bindA_def catchA_def liftA_def callA_def emit_def info_def returnA_def throwA_def
  TOOL_NAME_def REPO_OWNER_def REPO_NAME_def toLowerCase_def toLowerCase_char_def
  trim_def is_space_def sample_env_def

section \<open>The blocks, equation by equation\<close>

text \<open>
  Each block is rewritten as a case distinction on what the collaborators answer, with
  the events it appends written out; the frame lemmas say which kinds of events a
  block can append at all.
\<close>

lemmas action_defs = bindA_def catchA_def liftA_def callA_def emit_def info_def returnA_def throwA_def

lemma getLatestVersion_eq:
  "getLatestVersion e tok t =
     (case github_getOctokit e tok of
        Inl err \<Rightarrow> (Inl err, t)
      | Inr c \<Rightarrow>
          (case repos_getLatestRelease e c ''go-task'' ''task'' of
             Inl err \<Rightarrow>
               (Inl (JsError ''Error'' (''Failed to fetch latest version: '' @ toString err)),
                t @ [GetLatestRelease c ''go-task'' ''task''])
           | Inr tag \<Rightarrow>
               (Inr (replace_leading_v tag), t @ [GetLatestRelease c ''go-task'' ''task''])))"
  by (simp add: getLatestVersion_def action_defs REPO_OWNER_def REPO_NAME_def split: sum.splits)

lemma resolveVersion_latest:
  assumes "toLowerCase vi = ''latest''"
  shows "resolveVersion e vi tok t =
     (case getLatestVersion e tok (t @ [Info ''Fetching latest version...'']) of
        (Inl err, t') \<Rightarrow> (Inl err, t')
      | (Inr v, t') \<Rightarrow> (Inr v, t' @ [Info (''Latest version: '' @ v)]))"
  using assms by (simp add: resolveVersion_def action_defs split: sum.splits prod.splits)

lemma resolveVersion_explicit:
  assumes "toLowerCase vi \<noteq> ''latest''"
  shows "resolveVersion e vi tok t = (Inr (normalizeVersion vi), t)"
  using assms by (simp add: resolveVersion_def action_defs)

lemma resolveVersion_frame:
  "\<exists>d. snd (resolveVersion e vi tok t) = t @ d
       \<and> list_all (\<lambda>ev. is_Info ev \<or> is_GetLatestRelease ev) d"
proof (cases "toLowerCase vi = ''latest''")
  case True
  show ?thesis
    by (simp add: resolveVersion_latest [OF True] getLatestVersion_eq split: sum.splits)
next
  case False
  show ?thesis by (simp add: resolveVersion_explicit [OF False])
qed

lemma downloadAndExtract_eq:
  "downloadAndExtract e url v pi t =
     (case tc_downloadTool e url of
        Inl err \<Rightarrow> (Inl err, t @ [Info (''Downloading Taskfile from '' @ url), DownloadTool url])
      | Inr dl \<Rightarrow>
          (if ext pi = ''zip'' then
             (case tc_extractZip e dl of
                Inl err \<Rightarrow> (Inl err, t @ [Info (''Downloading Taskfile from '' @ url),
                              DownloadTool url, ExtractZip dl])
              | Inr x \<Rightarrow> (tc_cacheDir e x ''task'' v,
                          t @ [Info (''Downloading Taskfile from '' @ url),
                              DownloadTool url, ExtractZip dl, CacheDir x ''task'' v]))
           else
             (case tc_extractTar e dl of
                Inl err \<Rightarrow> (Inl err, t @ [Info (''Downloading Taskfile from '' @ url),
                              DownloadTool url, ExtractTar dl])
              | Inr x \<Rightarrow> (tc_cacheDir e x ''task'' v,
                          t @ [Info (''Downloading Taskfile from '' @ url),
                              DownloadTool url, ExtractTar dl, CacheDir x ''task'' v]))))"
  by (simp add: downloadAndExtract_def action_defs TOOL_NAME_def split: sum.splits)

lemma downloadAndExtract_frame:
  "\<exists>d. snd (downloadAndExtract e url v pi t) = t @ d
       \<and> list_all (\<lambda>ev. is_Info ev \<or> is_ExtractZip ev \<or> is_ExtractTar ev
                      \<or> ev = DownloadTool url \<or> (\<exists>x. ev = CacheDir x ''task'' v)) d"
  by (simp add: downloadAndExtract_eq split: sum.splits)

lemma checkToolCache_eq:
  "checkToolCache e v pi t =
     (case tc_find e ''task'' v of
        Inl err \<Rightarrow> (Inl err, t @ [Find ''task'' v])
      | Inr p \<Rightarrow>
          (if p \<noteq> [] then
             (Inr (p, True),
              t @ [Find ''task'' v, Info (''Found Taskfile '' @ v @ '' in tool cache'')])
           else
             (case downloadAndExtract e (getDownloadUrl v pi) v pi
                     (t @ [Find ''task'' v,
                           Info (''Taskfile '' @ v @ '' not found in cache, downloading...'')]) of
                (Inl err, t') \<Rightarrow> (Inl err, t')
              | (Inr c, t') \<Rightarrow> (Inr (c, False), t'))))"
  by (simp add: checkToolCache_def action_defs TOOL_NAME_def split: sum.splits prod.splits)


lemma checkToolCache_frame:
  "\<exists>d. snd (checkToolCache e v pi t) = t @ Find ''task'' v # d
       \<and> list_all (\<lambda>ev. is_Info ev \<or> is_ExtractZip ev \<or> is_ExtractTar ev
                      \<or> ev = DownloadTool (getDownloadUrl v pi)
                      \<or> (\<exists>x. ev = CacheDir x ''task'' v)) d"
proof -
  let ?t = "t @ [Find ''task'' v,
                 Info (''Taskfile '' @ v @ '' not found in cache, downloading...'')]"
  obtain d where d: "snd (downloadAndExtract e (getDownloadUrl v pi) v pi ?t) = ?t @ d"
    and l: "list_all (\<lambda>ev. is_Info ev \<or> is_ExtractZip ev \<or> is_ExtractTar ev
                      \<or> ev = DownloadTool (getDownloadUrl v pi)
                      \<or> (\<exists>x. ev = CacheDir x ''task'' v)) d"
    using downloadAndExtract_frame by blast
  show ?thesis
    using d l by (auto simp add: checkToolCache_eq split: sum.splits prod.splits)
qed


lemma finishRun_eq:
  "finishRun e v path hit t =
     (case core_addPath e path of
        Inl err \<Rightarrow> (Inl err, t @ [AddPath path])
      | Inr u \<Rightarrow>
          (case exec_exec e ''task'' [''--version''] of
             Inl err \<Rightarrow> (Inl err, t @ [AddPath path, Info (''Added '' @ path @ '' to PATH''),
                           Exec ''task'' [''--version'']])
           | Inr out \<Rightarrow>
               (Inr (), t @ [AddPath path, Info (''Added '' @ path @ '' to PATH''),
                  Exec ''task'' [''--version''], Info (''Taskfile installed: '' @ trim out),
                  SetOutput ''version'' v,
                  SetOutput ''cache-hit'' (if hit then ''true'' else ''false''),
                  Info (''Successfully setup Taskfile v'' @ v)])))"
  by (simp add: finishRun_def verifyInstallation_def action_defs split: sum.splits)

lemma run_try_eq:
  "run_try e t =
     (case getPlatformInfo (os_platform e) (os_arch e) of
        Inl err \<Rightarrow> (Inl err, t)
      | Inr pi \<Rightarrow>
          (case resolveVersion e (run_versionInput e) (run_token e)
                  (t @ [Info (''Detected platform: '' @ os pi @ ''/'' @ arch pi)]) of
             (Inl err, t1) \<Rightarrow> (Inl err, t1)
           | (Inr v, t1) \<Rightarrow>
               (case checkToolCache e v pi t1 of
                  (Inl err, t2) \<Rightarrow> (Inl err, t2)
                | (Inr (path, hit), t2) \<Rightarrow> finishRun e v path hit t2)))"
  by (simp add: run_try_def action_defs split: sum.splits prod.splits)

lemma run_eq:
  "run e = (case run_try e [] of
              (Inl err, t) \<Rightarrow> t @ [SetFailed (failure_message err)]
            | (Inr u, t) \<Rightarrow> t)"
  by (simp add: run_def action_defs split: sum.splits prod.splits)





lemma list_all_weaken: "list_all P d \<Longrightarrow> (\<And>x. P x \<Longrightarrow> Q x) \<Longrightarrow> list_all Q d"
  by (induction d) simp_all

lemma filter_none: "list_all Q d \<Longrightarrow> (\<And>x. Q x \<Longrightarrow> \<not> P x) \<Longrightarrow> filter P d = []"
  by (induction d) auto

lemma finishRun_frame:
  "\<exists>d. snd (finishRun e v path hit t) = t @ d
       \<and> list_all (\<lambda>ev. is_Info ev \<or> is_AddPath ev \<or> is_Exec ev \<or> is_SetOutput ev) d"
  by (simp add: finishRun_eq split: sum.splits)

lemma run_resolve_failed:
  assumes "getPlatformInfo (os_platform e) (os_arch e) = Inr pi"
    and "resolveVersion e (run_versionInput e) (run_token e)
           [Info (''Detected platform: '' @ os pi @ ''/'' @ arch pi)] = (Inl err, t1)"
  shows "run e = t1 @ [SetFailed (failure_message err)]"
  using assms by (simp add: run_eq run_try_eq [of e "[]"])

lemma run_resolved:
  assumes P: "getPlatformInfo (os_platform e) (os_arch e) = Inr pi"
    and R: "resolveVersion e (run_versionInput e) (run_token e)
           [Info (''Detected platform: '' @ os pi @ ''/'' @ arch pi)] = (Inr v, t1)"
  shows "\<exists>d. run e = t1 @ Find ''task'' v # d
           \<and> list_all (\<lambda>ev. is_Info ev \<or> is_ExtractZip ev \<or> is_ExtractTar ev
                      \<or> ev = DownloadTool (getDownloadUrl v pi)
                      \<or> (\<exists>x. ev = CacheDir x ''task'' v)
                      \<or> is_AddPath ev \<or> is_Exec ev \<or> is_SetOutput ev
                      \<or> is_SetFailed ev) d"
proof -
  let ?Q = "\<lambda>ev. is_Info ev \<or> is_ExtractZip ev \<or> is_ExtractTar ev
                      \<or> ev = DownloadTool (getDownloadUrl v pi)
                      \<or> (\<exists>x. ev = CacheDir x ''task'' v)
                      \<or> is_AddPath ev \<or> is_Exec ev \<or> is_SetOutput ev
                      \<or> is_SetFailed ev"
  obtain r2 t2 where C: "checkToolCache e v pi t1 = (r2, t2)"
    by (cases "checkToolCache e v pi t1") blast
  obtain d2 where d2: "t2 = t1 @ Find ''task'' v # d2"
    and l2: "list_all (\<lambda>ev. is_Info ev \<or> is_ExtractZip ev \<or> is_ExtractTar ev
                      \<or> ev = DownloadTool (getDownloadUrl v pi)
                      \<or> (\<exists>x. ev = CacheDir x ''task'' v)) d2"
    using checkToolCache_frame [of e v pi t1] C by auto
  have q2: "list_all ?Q d2" by (rule list_all_weaken [OF l2]) blast
  show ?thesis
  proof (cases r2)
    case (Inl err)
    then have "run e = t1 @ Find ''task'' v # (d2 @ [SetFailed (failure_message err)])"
      using P R C d2 by (simp add: run_eq run_try_eq [of e "[]"])
    moreover have "list_all ?Q (d2 @ [SetFailed (failure_message err)])"
      using q2 by simp
    ultimately show ?thesis by blast
  next
    case ph: (Inr ph)
    obtain path hit where ph': "ph = (path, hit)" by (cases ph) blast
    have T: "run_try e [] = finishRun e v path hit t2"
      using P R C ph ph' by (simp add: run_try_eq [of e "[]"])
    obtain r3 t3 where F: "finishRun e v path hit t2 = (r3, t3)"
      by (cases "finishRun e v path hit t2") blast
    obtain d3 where d3: "t3 = t2 @ d3"
      and l3: "list_all (\<lambda>ev. is_Info ev \<or> is_AddPath ev \<or> is_Exec ev \<or> is_SetOutput ev) d3"
      using finishRun_frame [of e v path hit t2] F by auto
    have q3: "list_all ?Q d3" by (rule list_all_weaken [OF l3]) blast
    show ?thesis
    proof (cases r3)
      case (Inl err)
      then have "run e = t1 @ Find ''task'' v # (d2 @ d3 @ [SetFailed (failure_message err)])"
        using T F d2 d3 by (simp add: run_eq)
      moreover have "list_all ?Q (d2 @ d3 @ [SetFailed (failure_message err)])"
        using q2 q3 by simp
      ultimately show ?thesis by blast
    next
      case (Inr u)
      then have "run e = t1 @ Find ''task'' v # (d2 @ d3)"
        using T F d2 d3 by (simp add: run_eq)
      moreover have "list_all ?Q (d2 @ d3)" using q2 q3 by simp
      ultimately show ?thesis by blast
    qed
  qed
qed

lemma resolveVersion_filter:
  assumes "\<And>ev. is_Info ev \<or> is_GetLatestRelease ev \<Longrightarrow> \<not> P ev"
  shows "filter P (snd (resolveVersion e vi tok t)) = filter P t"
proof -
  obtain d where d: "snd (resolveVersion e vi tok t) = t @ d"
    and l: "list_all (\<lambda>ev. is_Info ev \<or> is_GetLatestRelease ev) d"
    using resolveVersion_frame by blast
  have "filter P d = []" using l assms by (rule filter_none)
  then show ?thesis by (simp add: d)
qed

lemma getPlatformInfo_bad_platform:
  assumes "platform \<notin> set [''linux'', ''darwin'', ''win32'', ''freebsd'']"
  shows "getPlatformInfo platform node_arch =
           Inl (JsError ''Error'' (''Unsupported platform: '' @ platform))"
  using assms by (simp add: getPlatformInfo_def)

lemma getPlatformInfo_bad_arch:
  assumes "platform \<in> set [''linux'', ''darwin'', ''win32'', ''freebsd'']"
    and "node_arch \<notin> set [''x64'', ''arm64'', ''arm'', ''ia32'']"
  shows "getPlatformInfo platform node_arch =
           Inl (JsError ''Error'' (''Unsupported architecture: '' @ node_arch))"
  using assms by (auto simp add: getPlatformInfo_def)

section \<open>The artifact locator\<close>

text \<open>
  C1. For every version and every platform record, \<open>getDownloadUrl\<close> is the fixed
  prefix, the version, \<open>/task_\<close>, the operating system, \<open>_\<close>, the architecture, a dot
  and the extension. It is a function of its two arguments alone (it takes neither the
  collaborators nor the trace), and version 3.46.4 on (linux, amd64, tar.gz) gives the
  URL of the specification.
\<close>

theorem getDownloadUrl_exact:
  "getDownloadUrl v \<lparr>os = taskOs, arch = taskArch, ext = x\<rparr> =
     ''https://github.com/go-task/task/releases/download/v'' @ v @ ''/task_'' @ taskOs
       @ ''_'' @ taskArch @ ''.'' @ x
   \<and> getDownloadUrl v p =
     ''https://github.com/go-task/task/releases/download/v'' @ v @ ''/task_'' @ os p
       @ ''_'' @ arch p @ ''.'' @ ext p
   \<and> getDownloadUrl ''3.46.4'' \<lparr>os = ''linux'', arch = ''amd64'', ext = ''tar.gz''\<rparr> =
     ''https://github.com/go-task/task/releases/download/v3.46.4/task_linux_amd64.tar.gz''"
  by (simp add: getDownloadUrl_def REPO_OWNER_def REPO_NAME_def)

section \<open>The platform resolver\<close>

text \<open>
  C3. The operating system mapping of \<open>getPlatformInfo\<close>. On each of the four
  architectures the resolver knows, \<open>linux\<close> gives the name \<open>linux\<close> with \<open>tar.gz\<close>,
  \<open>darwin\<close> (macOS) gives \<open>darwin\<close> with \<open>tar.gz\<close>, \<open>win32\<close> (Windows) gives
  \<open>windows\<close> with \<open>zip\<close> and \<open>freebsd\<close> gives \<open>freebsd\<close> with \<open>tar.gz\<close>. Any
  other identifier makes the resolver throw, whatever the architecture, an \<open>Error\<close>
  whose message ends with the identifier.
\<close>

theorem platform_os_mapping:
  "(node_arch \<in> set [''x64'', ''arm64'', ''arm'', ''ia32''] \<longrightarrow>
      (\<exists>p. getPlatformInfo ''linux'' node_arch = Inr p
           \<and> os p = ''linux'' \<and> ext p = ''tar.gz'')
    \<and> (\<exists>p. getPlatformInfo ''darwin'' node_arch = Inr p
           \<and> os p = ''darwin'' \<and> ext p = ''tar.gz'')
    \<and> (\<exists>p. getPlatformInfo ''win32'' node_arch = Inr p
           \<and> os p = ''windows'' \<and> ext p = ''zip'')
    \<and> (\<exists>p. getPlatformInfo ''freebsd'' node_arch = Inr p
           \<and> os p = ''freebsd'' \<and> ext p = ''tar.gz''))
   \<and> (platform \<notin> set [''linux'', ''darwin'', ''win32'', ''freebsd''] \<longrightarrow>
      getPlatformInfo platform node_arch =
        Inl (JsError ''Error'' (''Unsupported platform: '' @ platform)))"
proof (intro conjI impI)
  assume "platform \<notin> set [''linux'', ''darwin'', ''win32'', ''freebsd'']"
  then show "getPlatformInfo platform node_arch =
        Inl (JsError ''Error'' (''Unsupported platform: '' @ platform))"
    by (rule getPlatformInfo_bad_platform)
qed (auto simp add: getPlatformInfo_def)

text \<open>On \<open>arm64\<close> the four systems resolve; \<open>sunos\<close> is named in the failure.\<close>

theorem platform_os_mapping_witness:
  "''arm64'' \<in> set [''x64'', ''arm64'', ''arm'', ''ia32'']
   \<and> ''sunos'' \<notin> set [''linux'', ''darwin'', ''win32'', ''freebsd'']
   \<and> getPlatformInfo ''linux'' ''arm64'' = Inr \<lparr>os = ''linux'', arch = ''arm64'', ext = ''tar.gz''\<rparr>
   \<and> getPlatformInfo ''darwin'' ''arm64'' = Inr \<lparr>os = ''darwin'', arch = ''arm64'', ext = ''tar.gz''\<rparr>
   \<and> getPlatformInfo ''win32'' ''arm64'' = Inr \<lparr>os = ''windows'', arch = ''arm64'', ext = ''zip''\<rparr>
   \<and> getPlatformInfo ''freebsd'' ''arm64'' = Inr \<lparr>os = ''freebsd'', arch = ''arm64'', ext = ''tar.gz''\<rparr>
   \<and> getPlatformInfo ''sunos'' ''arm64'' = Inl (JsError ''Error'' ''Unsupported platform: sunos'')"
  using platform_os_mapping [of "''arm64''" "''sunos''"]
  by (simp add: getPlatformInfo_def)

text \<open>
  C4. The architecture mapping of \<open>getPlatformInfo\<close>, which is reached once the
  operating system is one of the four supported ones: \<open>x64\<close> gives \<open>amd64\<close>, \<open>arm64\<close>
  gives \<open>arm64\<close>, \<open>arm\<close> gives \<open>arm\<close> and \<open>ia32\<close> gives \<open>386\<close>. Any other identifier
  makes the resolver throw an \<open>Error\<close> whose message ends with the identifier.
\<close>

theorem platform_arch_mapping:
  "platform \<in> set [''linux'', ''darwin'', ''win32'', ''freebsd''] \<longrightarrow>
      (\<exists>p. getPlatformInfo platform ''x64'' = Inr p \<and> arch p = ''amd64'')
    \<and> (\<exists>p. getPlatformInfo platform ''arm64'' = Inr p \<and> arch p = ''arm64'')
    \<and> (\<exists>p. getPlatformInfo platform ''arm'' = Inr p \<and> arch p = ''arm'')
    \<and> (\<exists>p. getPlatformInfo platform ''ia32'' = Inr p \<and> arch p = ''386'')
    \<and> (node_arch \<notin> set [''x64'', ''arm64'', ''arm'', ''ia32''] \<longrightarrow>
         getPlatformInfo platform node_arch =
           Inl (JsError ''Error'' (''Unsupported architecture: '' @ node_arch)))"
proof (intro conjI impI)
  assume "platform \<in> set [''linux'', ''darwin'', ''win32'', ''freebsd'']"
    and "node_arch \<notin> set [''x64'', ''arm64'', ''arm'', ''ia32'']"
  then show "getPlatformInfo platform node_arch =
           Inl (JsError ''Error'' (''Unsupported architecture: '' @ node_arch))"
    by (rule getPlatformInfo_bad_arch)
qed (auto simp add: getPlatformInfo_def)

text \<open>On Windows the four architectures resolve; \<open>mips\<close> is named in the failure.\<close>

theorem platform_arch_mapping_witness:
  "''win32'' \<in> set [''linux'', ''darwin'', ''win32'', ''freebsd'']
   \<and> ''mips'' \<notin> set [''x64'', ''arm64'', ''arm'', ''ia32'']
   \<and> getPlatformInfo ''win32'' ''x64'' = Inr \<lparr>os = ''windows'', arch = ''amd64'', ext = ''zip''\<rparr>
   \<and> getPlatformInfo ''win32'' ''arm64'' = Inr \<lparr>os = ''windows'', arch = ''arm64'', ext = ''zip''\<rparr>
   \<and> getPlatformInfo ''win32'' ''arm'' = Inr \<lparr>os = ''windows'', arch = ''arm'', ext = ''zip''\<rparr>
   \<and> getPlatformInfo ''win32'' ''ia32'' = Inr \<lparr>os = ''windows'', arch = ''386'', ext = ''zip''\<rparr>
   \<and> getPlatformInfo ''win32'' ''mips'' = Inl (JsError ''Error'' ''Unsupported architecture: mips'')"
  using platform_arch_mapping [of "''win32''" "''mips''"]
  by (simp add: getPlatformInfo_def)

section \<open>The version resolver\<close>

text \<open>
  C5. \<open>normalizeVersion\<close> removes exactly one leading \<open>v\<close>: \<open>v\<close> followed by \<open>s\<close>
  gives \<open>s\<close>, whatever \<open>s\<close> is. A string that does not start with \<open>v\<close> is returned
  as it is, so normalising it twice is normalising it once, and normalising it behind
  a \<open>v\<close> gives it back. A request that is not \<open>latest\<close> in any letter case resolves
  to the normalised request, with no event and no other check. Both \<open>3.46.4\<close> and
  \<open>v3.46.4\<close> give \<open>3.46.4\<close>.
\<close>

theorem normalizeVersion_strips_one_v:
  "normalizeVersion (CHR ''v'' # s) = s
   \<and> (\<not> prefix ''v'' s \<longrightarrow>
        normalizeVersion s = s
      \<and> normalizeVersion (normalizeVersion s) = normalizeVersion s
      \<and> normalizeVersion (''v'' @ s) = s)
   \<and> (toLowerCase s \<noteq> ''latest'' \<longrightarrow>
        resolveVersion e s tok t = (Inr (normalizeVersion s), t))
   \<and> normalizeVersion ''3.46.4'' = ''3.46.4''
   \<and> normalizeVersion ''v3.46.4'' = ''3.46.4''"
proof -
  have "\<not> prefix ''v'' s \<Longrightarrow> normalizeVersion s = s"
    by (cases s) (simp_all add: normalizeVersion_def)
  then show ?thesis
    by (simp add: normalizeVersion_def resolveVersion_explicit)
qed

text \<open>The request \<open>3.46.4\<close>, bare and behind a \<open>v\<close>, on the sample runner.\<close>

theorem normalizeVersion_strips_one_v_witness:
  "\<not> prefix ''v'' ''3.46.4'' \<and> toLowerCase ''3.46.4'' \<noteq> ''latest''
   \<and> normalizeVersion ''3.46.4'' = ''3.46.4''
   \<and> normalizeVersion (normalizeVersion ''3.46.4'') = ''3.46.4''
   \<and> normalizeVersion ''v3.46.4'' = ''3.46.4''
   \<and> resolveVersion sample_env ''3.46.4'' ''ghs_token'' [] = (Inr ''3.46.4'', [])"
  using normalizeVersion_strips_one_v [of "''3.46.4''" sample_env "''ghs_token''" "[]"]
  by (simp add: normalizeVersion_def toLowerCase_def toLowerCase_char_def)

text \<open>
  C10. The strip is case-sensitive and the sentinel is not. A request that starts with
  an upper-case \<open>V\<close> is never \<open>latest\<close> in any letter case, is returned unchanged by
  \<open>normalizeVersion\<close>, and resolves to itself without any event. The requests
  \<open>LATEST\<close> and \<open>Latest\<close> lower-case to \<open>latest\<close> and resolve as \<open>latest\<close> does: by
  the registry query of \<open>getLatestVersion\<close>.
\<close>

theorem uppercase_V_kept_latest_any_case:
  "toLowerCase (CHR ''V'' # s) \<noteq> ''latest''
   \<and> normalizeVersion (CHR ''V'' # s) = CHR ''V'' # s
   \<and> resolveVersion e (CHR ''V'' # s) tok t = (Inr (CHR ''V'' # s), t)
   \<and> resolveVersion e ''V3.46.4'' tok t = (Inr ''V3.46.4'', t)
   \<and> toLowerCase ''LATEST'' = ''latest'' \<and> toLowerCase ''Latest'' = ''latest''
   \<and> resolveVersion e ''LATEST'' tok t = resolveVersion e ''latest'' tok t
   \<and> resolveVersion e ''Latest'' tok t = resolveVersion e ''latest'' tok t
   \<and> resolveVersion e ''latest'' tok t =
       (case getLatestVersion e tok (t @ [Info ''Fetching latest version...'']) of
          (Inl err, t') \<Rightarrow> (Inl err, t')
        | (Inr v, t') \<Rightarrow> (Inr v, t' @ [Info (''Latest version: '' @ v)]))"
proof -
  have V: "toLowerCase (CHR ''V'' # s) \<noteq> ''latest''"
    by (simp add: toLowerCase_def toLowerCase_char_def)
  have V': "toLowerCase ''V3.46.4'' \<noteq> ''latest''"
    by (simp add: toLowerCase_def toLowerCase_char_def)
  have L: "toLowerCase ''LATEST'' = ''latest''" "toLowerCase ''Latest'' = ''latest''"
    "toLowerCase ''latest'' = ''latest''"
    by (simp_all add: toLowerCase_def toLowerCase_char_def)
  show ?thesis
    using V L
    by (simp add: resolveVersion_explicit [OF V] resolveVersion_explicit [OF V']
        resolveVersion_latest [OF L(1)] resolveVersion_latest [OF L(2)]
        resolveVersion_latest [OF L(3)] normalizeVersion_def)
qed

text \<open>
  On the sample runner \<open>V3.46.4\<close> resolves to itself, and \<open>LATEST\<close> to the registry's
  tag without its \<open>v\<close>, after one query.
\<close>

theorem uppercase_V_kept_latest_any_case_witness:
  "resolveVersion sample_env ''V3.46.4'' ''ghs_token'' [] = (Inr ''V3.46.4'', [])
   \<and> resolveVersion sample_env ''LATEST'' ''ghs_token'' [] =
       (Inr ''3.50.0'',
        [Info ''Fetching latest version...'',
         GetLatestRelease (Octokit ''ghs_token'') ''go-task'' ''task'',
         Info ''Latest version: 3.50.0''])"
  using uppercase_V_kept_latest_any_case [of "''3.46.4''" sample_env "''ghs_token''" "[]"]
  by (simp add: getLatestVersion_eq sample_env_def)



section \<open>The cache-aware installer\<close>

text \<open>
  C7. When the tool cache answers a path for \<open>task\<close> and the version, the installer
  block returns that path with \<open>cacheHit\<close> true after the lookup and one line of log:
  nothing is downloaded, extracted or written to the cache. In a run that resolved the
  version \<open>v\<close>, the trace then continues with the lookup, the log line and the
  publication of that very path, holds no download, extraction or cache write at all,
  and any \<open>cache-hit\<close> output is \<open>true\<close>. Conversely the block appends a download,
  an extraction or a cache write only when the cache answered the empty path, and a
  run holds one only when the lookup of its resolved version answered the empty path.
\<close>

theorem cache_hit_skips_install:
  "(tc_find e ''task'' v = Inr p \<and> p \<noteq> [] \<longrightarrow>
      checkToolCache e v pi t =
        (Inr (p, True),
         t @ [Find ''task'' v, Info (''Found Taskfile '' @ v @ '' in tool cache'')])
    \<and> (getPlatformInfo (os_platform e) (os_arch e) = Inr pi
       \<and> resolveVersion e (run_versionInput e) (run_token e)
           [Info (''Detected platform: '' @ os pi @ ''/'' @ arch pi)] = (Inr v, tr) \<longrightarrow>
         filter is_install (run e) = []
       \<and> run e =
           tr @ [Find ''task'' v, Info (''Found Taskfile '' @ v @ '' in tool cache''),
                 AddPath p]
           @ (case core_addPath e p of
                Inl err \<Rightarrow> [SetFailed (failure_message err)]
              | Inr u \<Rightarrow>
                  [Info (''Added '' @ p @ '' to PATH''), Exec ''task'' [''--version'']]
                  @ (case exec_exec e ''task'' [''--version''] of
                       Inl err \<Rightarrow> [SetFailed (failure_message err)]
                     | Inr out \<Rightarrow>
                         [Info (''Taskfile installed: '' @ trim out),
                          SetOutput ''version'' v, SetOutput ''cache-hit'' ''true'',
                          Info (''Successfully setup Taskfile v'' @ v)]))))
   \<and> (filter is_install (snd (checkToolCache e v pi t)) \<noteq> filter is_install t \<longrightarrow>
        tc_find e ''task'' v = Inr [])
   \<and> (filter is_install (run e) \<noteq> [] \<longrightarrow>
        (\<exists>pi' v' t'. getPlatformInfo (os_platform e) (os_arch e) = Inr pi'
           \<and> resolveVersion e (run_versionInput e) (run_token e)
               [Info (''Detected platform: '' @ os pi' @ ''/'' @ arch pi')] = (Inr v', t')
           \<and> tc_find e ''task'' v' = Inr []))"
proof -
  have no_install: "filter is_install u' = []"
    if "resolveVersion e vi k [Info m] = (r, u')" for vi k m r u'
    using resolveVersion_filter [of is_install e vi k "[Info m]"] that
    by (auto simp add: is_install_def)
  have hit_run: "filter is_install (run e) = []
       \<and> run e =
           u1 @ [Find ''task'' w, Info (''Found Taskfile '' @ w @ '' in tool cache''),
                 AddPath q]
           @ (case core_addPath e q of
                Inl err \<Rightarrow> [SetFailed (failure_message err)]
              | Inr u \<Rightarrow>
                  [Info (''Added '' @ q @ '' to PATH''), Exec ''task'' [''--version'']]
                  @ (case exec_exec e ''task'' [''--version''] of
                       Inl err \<Rightarrow> [SetFailed (failure_message err)]
                     | Inr out \<Rightarrow>
                         [Info (''Taskfile installed: '' @ trim out),
                          SetOutput ''version'' w, SetOutput ''cache-hit'' ''true'',
                          Info (''Successfully setup Taskfile v'' @ w)]))"
    if H: "tc_find e ''task'' w = Inr q" "q \<noteq> []"
      and P: "getPlatformInfo (os_platform e) (os_arch e) = Inr pj"
      and R: "resolveVersion e (run_versionInput e) (run_token e)
           [Info (''Detected platform: '' @ os pj @ ''/'' @ arch pj)] = (Inr w, u1)"
    for w q pj u1
  proof -
    have T: "run_try e [] = finishRun e w q True
               (u1 @ [Find ''task'' w, Info (''Found Taskfile '' @ w @ '' in tool cache'')])"
      using H P R by (simp add: run_try_eq [of e "[]"] checkToolCache_eq)
    have n: "filter is_install u1 = []" using no_install [OF R] .
    have eq: "run e =
           u1 @ [Find ''task'' w, Info (''Found Taskfile '' @ w @ '' in tool cache''),
                 AddPath q]
           @ (case core_addPath e q of
                Inl err \<Rightarrow> [SetFailed (failure_message err)]
              | Inr u \<Rightarrow>
                  [Info (''Added '' @ q @ '' to PATH''), Exec ''task'' [''--version'']]
                  @ (case exec_exec e ''task'' [''--version''] of
                       Inl err \<Rightarrow> [SetFailed (failure_message err)]
                     | Inr out \<Rightarrow>
                         [Info (''Taskfile installed: '' @ trim out),
                          SetOutput ''version'' w, SetOutput ''cache-hit'' ''true'',
                          Info (''Successfully setup Taskfile v'' @ w)]))"
      by (simp add: run_eq T finishRun_eq split: sum.splits)
    have "filter is_install (run e) = []"
      using n by (simp add: eq is_install_def split: sum.splits)
    then show ?thesis using eq by blast
  qed
  have miss_block: "tc_find e ''task'' v = Inr []"
    if "filter is_install (snd (checkToolCache e v pi t)) \<noteq> filter is_install t"
  proof (cases "tc_find e ''task'' v")
    case (Inl err)
    then show ?thesis using that by (simp add: checkToolCache_eq is_install_def)
  next
    case (Inr q)
    then show ?thesis using that by (cases "q = []") (simp_all add: checkToolCache_eq is_install_def)
  qed
  have miss_run: "\<exists>pi' v' t'. getPlatformInfo (os_platform e) (os_arch e) = Inr pi'
           \<and> resolveVersion e (run_versionInput e) (run_token e)
               [Info (''Detected platform: '' @ os pi' @ ''/'' @ arch pi')] = (Inr v', t')
           \<and> tc_find e ''task'' v' = Inr []"
    if I: "filter is_install (run e) \<noteq> []"
  proof (cases "getPlatformInfo (os_platform e) (os_arch e)")
    case (Inl err)
    then show ?thesis using I by (simp add: run_eq run_try_eq is_install_def)
  next
    case P: (Inr pj)
    obtain r1 u1 where R: "resolveVersion e (run_versionInput e) (run_token e)
           [Info (''Detected platform: '' @ os pj @ ''/'' @ arch pj)] = (r1, u1)"
      by (cases "resolveVersion e (run_versionInput e) (run_token e)
           [Info (''Detected platform: '' @ os pj @ ''/'' @ arch pj)]") blast
    have n: "filter is_install u1 = []" using no_install [OF R] .
    show ?thesis
    proof (cases r1)
      case (Inl err)
      then show ?thesis using I n run_resolve_failed [OF P, of err u1] R
        by (simp add: is_install_def)
    next
      case w: (Inr w)
      show ?thesis
      proof (cases "tc_find e ''task'' w")
        case (Inl err)
        then have "run e = u1 @ [Find ''task'' w, SetFailed (failure_message err)]"
          using P R w by (simp add: run_eq run_try_eq [of e "[]"] checkToolCache_eq)
        then show ?thesis using I n by (simp add: is_install_def)
      next
        case (Inr q)
        show ?thesis
        proof (cases "q = []")
          case True
          then show ?thesis using P R w Inr by blast
        next
          case False
          then show ?thesis using hit_run [OF Inr False P] R w I by simp
        qed
      qed
    qed
  qed
  have hit_block: "checkToolCache e v pi t =
        (Inr (p, True),
         t @ [Find ''task'' v, Info (''Found Taskfile '' @ v @ '' in tool cache'')])"
    if "tc_find e ''task'' v = Inr p \<and> p \<noteq> []"
    using that by (simp add: checkToolCache_eq)
  show ?thesis
  proof (intro conjI impI)
    assume "tc_find e ''task'' v = Inr p \<and> p \<noteq> []"
    then show "checkToolCache e v pi t =
        (Inr (p, True),
         t @ [Find ''task'' v, Info (''Found Taskfile '' @ v @ '' in tool cache'')])"
      by (rule hit_block)
  next
    assume H: "tc_find e ''task'' v = Inr p \<and> p \<noteq> []"
      and PR: "getPlatformInfo (os_platform e) (os_arch e) = Inr pi
       \<and> resolveVersion e (run_versionInput e) (run_token e)
           [Info (''Detected platform: '' @ os pi @ ''/'' @ arch pi)] = (Inr v, tr)"
    show "filter is_install (run e) = []"
      using hit_run [of v p pi tr] H PR by blast
  next
    assume H: "tc_find e ''task'' v = Inr p \<and> p \<noteq> []"
      and PR: "getPlatformInfo (os_platform e) (os_arch e) = Inr pi
       \<and> resolveVersion e (run_versionInput e) (run_token e)
           [Info (''Detected platform: '' @ os pi @ ''/'' @ arch pi)] = (Inr v, tr)"
    have "tc_find e ''task'' v = Inr p" "p \<noteq> []"
      "getPlatformInfo (os_platform e) (os_arch e) = Inr pi"
      "resolveVersion e (run_versionInput e) (run_token e)
           [Info (''Detected platform: '' @ os pi @ ''/'' @ arch pi)] = (Inr v, tr)"
      using H PR by simp_all
    from hit_run [OF this] show "run e =
           tr @ [Find ''task'' v, Info (''Found Taskfile '' @ v @ '' in tool cache''),
                 AddPath p]
           @ (case core_addPath e p of
                Inl err \<Rightarrow> [SetFailed (failure_message err)]
              | Inr u \<Rightarrow>
                  [Info (''Added '' @ p @ '' to PATH''), Exec ''task'' [''--version'']]
                  @ (case exec_exec e ''task'' [''--version''] of
                       Inl err \<Rightarrow> [SetFailed (failure_message err)]
                     | Inr out \<Rightarrow>
                         [Info (''Taskfile installed: '' @ trim out),
                          SetOutput ''version'' v, SetOutput ''cache-hit'' ''true'',
                          Info (''Successfully setup Taskfile v'' @ v)]))"
      by (rule conjunct2)
  next
    assume "filter is_install (snd (checkToolCache e v pi t)) \<noteq> filter is_install t"
    then show "tc_find e ''task'' v = Inr []" by (rule miss_block)
  next
    assume "filter is_install (run e) \<noteq> []"
    then show "\<exists>pi' v' t'. getPlatformInfo (os_platform e) (os_arch e) = Inr pi'
           \<and> resolveVersion e (run_versionInput e) (run_token e)
               [Info (''Detected platform: '' @ os pi' @ ''/'' @ arch pi')] = (Inr v', t')
           \<and> tc_find e ''task'' v' = Inr []"
      by (rule miss_run)
  qed
qed

text \<open>
  The sample runner with \<open>3.46.4\<close> already in the cache: the run is the lookup, the
  publication of the cached path and the check, with \<open>cache-hit\<close> set to \<open>true\<close>.
\<close>

theorem cache_hit_skips_install_witness:
  "tc_find (sample_env\<lparr>tc_find := (\<lambda>tool version. Inr ''/opt/hostedtoolcache/task/3.46.4/x64'')\<rparr>)
      ''task'' ''3.46.4'' = Inr ''/opt/hostedtoolcache/task/3.46.4/x64''
   \<and> run (sample_env\<lparr>tc_find := (\<lambda>tool version. Inr ''/opt/hostedtoolcache/task/3.46.4/x64'')\<rparr>) =
       [Info ''Detected platform: linux/amd64'', Find ''task'' ''3.46.4'',
        Info ''Found Taskfile 3.46.4 in tool cache'',
        AddPath ''/opt/hostedtoolcache/task/3.46.4/x64'',
        Info ''Added /opt/hostedtoolcache/task/3.46.4/x64 to PATH'',
        Exec ''task'' [''--version''], Info ''Taskfile installed: Task version: v3.46.4'',
        SetOutput ''version'' ''3.46.4'', SetOutput ''cache-hit'' ''true'',
        Info ''Successfully setup Taskfile v3.46.4'']
   \<and> filter is_install
        (run (sample_env\<lparr>tc_find := (\<lambda>tool version. Inr ''/opt/hostedtoolcache/task/3.46.4/x64'')\<rparr>)) = []
   \<and> filter is_install (run sample_env) =
       [DownloadTool ''https://github.com/go-task/task/releases/download/v3.46.4/task_linux_amd64.tar.gz'',
        ExtractTar ''/tmp/download'', CacheDir ''/tmp/untarred'' ''task'' ''3.46.4'']
   \<and> tc_find sample_env ''task'' ''3.46.4'' = Inr []"
  using cache_hit_skips_install
      [where e = "sample_env\<lparr>tc_find := (\<lambda>tool version. Inr ''/opt/hostedtoolcache/task/3.46.4/x64'')\<rparr>"
        and v = "''3.46.4''" and p = "''/opt/hostedtoolcache/task/3.46.4/x64''"
        and pi = "\<lparr>os = ''linux'', arch = ''amd64'', ext = ''tar.gz''\<rparr>"
        and t = "[]" and tr = "[Info ''Detected platform: linux/amd64'']"]
    cache_hit_skips_install
      [where e = sample_env and v = "''3.46.4''" and p = "[]"
        and pi = "\<lparr>os = ''linux'', arch = ''amd64'', ext = ''tar.gz''\<rparr>"
        and t = "[]" and tr = "[Info ''Detected platform: linux/amd64'']"]
  by (simp add: run_defs is_install_def)

section \<open>The resolved version\<close>

text \<open>
  C9, as the specification states it, fails: the request \<open>v\<close> resolves to the empty
  string, and the request \<open>vv3.46.4\<close> resolves to \<open>v3.46.4\<close>, which starts with \<open>v\<close>.
\<close>

theorem resolved_version_counterexample:
  "resolveVersion sample_env ''v'' ''ghs_token'' [] = (Inr [], [])
   \<and> resolveVersion sample_env ''vv3.46.4'' ''ghs_token'' [] = (Inr ''v3.46.4'', [])"
  by (simp add: resolveVersion_def normalizeVersion_def returnA_def toLowerCase_def
      toLowerCase_char_def)

text \<open>
  C9, amended. The resolved version is the request, or the tag of the latest release,
  with one leading \<open>v\<close> removed. It starts with \<open>v\<close> only if the request or tag starts
  with \<open>vv\<close>, and it is empty only if the request or tag is \<open>v\<close> or is empty. In a run
  it is used as it is: the one cache lookup is for \<open>task\<close> and that version, every
  download is of \<open>getDownloadUrl\<close> of that version, and every cache write is under
  \<open>task\<close> and that version.
\<close>

theorem resolved_version_verbatim:
  "normalizeVersion s = replace_leading_v s
   \<and> (\<not> prefix ''vv'' s \<longrightarrow> \<not> prefix ''v'' (replace_leading_v s))
   \<and> (s \<noteq> [] \<and> s \<noteq> ''v'' \<longrightarrow> replace_leading_v s \<noteq> [])
   \<and> (resolveVersion e vi tok t = (Inr v, t') \<longrightarrow>
        (if toLowerCase vi = ''latest''
         then \<exists>client tag. github_getOctokit e tok = Inr client
                \<and> repos_getLatestRelease e client ''go-task'' ''task'' = Inr tag
                \<and> v = replace_leading_v tag
         else v = normalizeVersion vi))
   \<and> (getPlatformInfo (os_platform e) (os_arch e) = Inr pi
      \<and> resolveVersion e (run_versionInput e) (run_token e)
          [Info (''Detected platform: '' @ os pi @ ''/'' @ arch pi)] = (Inr v, tr) \<longrightarrow>
        filter is_Find (run e) = [Find ''task'' v]
      \<and> list_all (\<lambda>ev. (is_DownloadTool ev \<longrightarrow> ev = DownloadTool (getDownloadUrl v pi))
                     \<and> (is_CacheDir ev \<longrightarrow> (\<exists>x. ev = CacheDir x ''task'' v))) (run e))"
proof -
  have a: "\<not> prefix ''vv'' s \<longrightarrow> \<not> prefix ''v'' (replace_leading_v s)"
    by (cases s) auto
  have b: "s \<noteq> [] \<and> s \<noteq> ''v'' \<longrightarrow> replace_leading_v s \<noteq> []"
    by (cases s) auto
  have c: "if toLowerCase vi = ''latest''
         then \<exists>client tag. github_getOctokit e tok = Inr client
                \<and> repos_getLatestRelease e client ''go-task'' ''task'' = Inr tag
                \<and> v = replace_leading_v tag
         else v = normalizeVersion vi"
    if R: "resolveVersion e vi tok t = (Inr v, t')"
  proof (cases "toLowerCase vi = ''latest''")
    case True
    show ?thesis using R True
      by (auto simp add: resolveVersion_latest [OF True] getLatestVersion_eq
          split: sum.splits)
  next
    case False
    show ?thesis using R False by (simp add: resolveVersion_explicit [OF False])
  qed
  have d: "filter is_Find (run e) = [Find ''task'' v]
      \<and> list_all (\<lambda>ev. (is_DownloadTool ev \<longrightarrow> ev = DownloadTool (getDownloadUrl v pi))
                     \<and> (is_CacheDir ev \<longrightarrow> (\<exists>x. ev = CacheDir x ''task'' v))) (run e)"
    if P: "getPlatformInfo (os_platform e) (os_arch e) = Inr pi"
      and R: "resolveVersion e (run_versionInput e) (run_token e)
          [Info (''Detected platform: '' @ os pi @ ''/'' @ arch pi)] = (Inr v, tr)"
  proof -
    let ?G = "\<lambda>ev. (is_DownloadTool ev \<longrightarrow> ev = DownloadTool (getDownloadUrl v pi))
                     \<and> (is_CacheDir ev \<longrightarrow> (\<exists>x. ev = CacheDir x ''task'' v))"
    obtain d1 where d1: "tr = [Info (''Detected platform: '' @ os pi @ ''/'' @ arch pi)] @ d1"
      and l1: "list_all (\<lambda>ev. is_Info ev \<or> is_GetLatestRelease ev) d1"
      using resolveVersion_frame [of e "run_versionInput e" "run_token e"
          "[Info (''Detected platform: '' @ os pi @ ''/'' @ arch pi)]"] R by auto
    obtain d2 where d2: "run e = tr @ Find ''task'' v # d2"
      and l2: "list_all (\<lambda>ev. is_Info ev \<or> is_ExtractZip ev \<or> is_ExtractTar ev
                      \<or> ev = DownloadTool (getDownloadUrl v pi)
                      \<or> (\<exists>x. ev = CacheDir x ''task'' v)
                      \<or> is_AddPath ev \<or> is_Exec ev \<or> is_SetOutput ev
                      \<or> is_SetFailed ev) d2"
      using run_resolved [OF P R] by blast
    have f1: "filter is_Find d1 = []" using l1 by (rule filter_none) auto
    have f2: "filter is_Find d2 = []" using l2 by (rule filter_none) auto
    have g1: "list_all ?G d1" by (rule list_all_weaken [OF l1]) auto
    have g2: "list_all ?G d2" by (rule list_all_weaken [OF l2]) auto
    show ?thesis using f1 f2 g1 g2 by (simp add: d2 d1)
  qed
  show ?thesis
  proof (intro conjI impI)
    show "normalizeVersion s = replace_leading_v s" by (simp add: normalizeVersion_def)
  next
    assume "\<not> prefix ''vv'' s" then show "\<not> prefix ''v'' (replace_leading_v s)"
      using a by blast
  next
    assume "s \<noteq> [] \<and> s \<noteq> ''v''" then show "replace_leading_v s \<noteq> []"
      using b by blast
  next
    assume "resolveVersion e vi tok t = (Inr v, t')"
    then show "if toLowerCase vi = ''latest''
         then \<exists>client tag. github_getOctokit e tok = Inr client
                \<and> repos_getLatestRelease e client ''go-task'' ''task'' = Inr tag
                \<and> v = replace_leading_v tag
         else v = normalizeVersion vi"
      by (rule c)
  next
    assume PR: "getPlatformInfo (os_platform e) (os_arch e) = Inr pi
      \<and> resolveVersion e (run_versionInput e) (run_token e)
          [Info (''Detected platform: '' @ os pi @ ''/'' @ arch pi)] = (Inr v, tr)"
    then show "filter is_Find (run e) = [Find ''task'' v]" using d by blast
  next
    assume PR: "getPlatformInfo (os_platform e) (os_arch e) = Inr pi
      \<and> resolveVersion e (run_versionInput e) (run_token e)
          [Info (''Detected platform: '' @ os pi @ ''/'' @ arch pi)] = (Inr v, tr)"
    then show "list_all (\<lambda>ev. (is_DownloadTool ev \<longrightarrow> ev = DownloadTool (getDownloadUrl v pi))
                     \<and> (is_CacheDir ev \<longrightarrow> (\<exists>x. ev = CacheDir x ''task'' v))) (run e)"
      using d by blast
  qed
qed

text \<open>
  The sample runner, asked for \<open>v3.46.4\<close>: the lookup, the download and the cache
  write all carry \<open>3.46.4\<close>.
\<close>

theorem resolved_version_verbatim_witness:
  "\<not> prefix ''vv'' ''v3.46.4'' \<and> \<not> prefix ''v'' (replace_leading_v ''v3.46.4'')
   \<and> replace_leading_v ''v3.46.4'' \<noteq> []
   \<and> resolveVersion sample_env ''v3.46.4'' ''ghs_token''
        [Info ''Detected platform: linux/amd64''] =
       (Inr ''3.46.4'', [Info ''Detected platform: linux/amd64''])
   \<and> filter is_Find (run sample_env) = [Find ''task'' ''3.46.4'']
   \<and> filter is_DownloadTool (run sample_env) =
       [DownloadTool ''https://github.com/go-task/task/releases/download/v3.46.4/task_linux_amd64.tar.gz'']
   \<and> filter is_CacheDir (run sample_env) = [CacheDir ''/tmp/untarred'' ''task'' ''3.46.4'']"
  using resolved_version_verbatim
      [where s = "''v3.46.4''" and e = sample_env and vi = "''v3.46.4''"
        and tok = "''ghs_token''" and t = "[Info ''Detected platform: linux/amd64'']"
        and v = "''3.46.4''" and t' = "[Info ''Detected platform: linux/amd64'']"
        and pi = "\<lparr>os = ''linux'', arch = ''amd64'', ext = ''tar.gz''\<rparr>"
        and tr = "[Info ''Detected platform: linux/amd64'']"]
  by (simp add: run_defs)

section \<open>The orchestrator\<close>

text \<open>
  C8. On a host whose operating system or architecture is not supported, the whole
  trace of the run is the one failure report: \<open>getPlatformInfo\<close> throws before the
  registry query, the cache lookup and the download, so the trace holds no event that
  reaches the network and none that reaches the tool cache. The message names the
  platform when the platform is unsupported, and the architecture otherwise.
\<close>

theorem unsupported_host:
  assumes "os_platform e \<notin> set [''linux'', ''darwin'', ''win32'', ''freebsd'']
         \<or> os_arch e \<notin> set [''x64'', ''arm64'', ''arm'', ''ia32'']"
  shows "run e = [SetFailed
           (if os_platform e \<notin> set [''linux'', ''darwin'', ''win32'', ''freebsd'']
            then ''Unsupported platform: '' @ os_platform e
            else ''Unsupported architecture: '' @ os_arch e)]
         \<and> filter is_network (run e) = [] \<and> filter is_cache (run e) = []"
proof (cases "os_platform e \<in> set [''linux'', ''darwin'', ''win32'', ''freebsd'']")
  case False
  have "run e = [SetFailed (''Unsupported platform: '' @ os_platform e)]"
    by (simp add: run_eq run_try_eq getPlatformInfo_bad_platform [OF False])
  then show ?thesis using False by (simp add: is_network_def is_cache_def)
next
  case True
  with assms have bad: "os_arch e \<notin> set [''x64'', ''arm64'', ''arm'', ''ia32'']" by blast
  have "run e = [SetFailed (''Unsupported architecture: '' @ os_arch e)]"
    by (simp add: run_eq run_try_eq getPlatformInfo_bad_arch [OF True bad])
  then show ?thesis using True by (simp add: is_network_def is_cache_def)
qed

text \<open>A runner on a MIPS host: one failure report and nothing else.\<close>

theorem unsupported_host_witness:
  "os_arch (sample_env\<lparr>os_arch := ''mips''\<rparr>) \<notin> set [''x64'', ''arm64'', ''arm'', ''ia32'']
   \<and> run (sample_env\<lparr>os_arch := ''mips''\<rparr>) = [SetFailed ''Unsupported architecture: mips'']
   \<and> filter is_network (run (sample_env\<lparr>os_arch := ''mips''\<rparr>)) = []
   \<and> filter is_cache (run (sample_env\<lparr>os_arch := ''mips''\<rparr>)) = []"
proof -
  have h: "os_platform (sample_env\<lparr>os_arch := ''mips''\<rparr>)
             \<notin> set [''linux'', ''darwin'', ''win32'', ''freebsd'']
         \<or> os_arch (sample_env\<lparr>os_arch := ''mips''\<rparr>)
             \<notin> set [''x64'', ''arm64'', ''arm'', ''ia32'']"
    by (simp add: sample_env_def)
  show ?thesis using unsupported_host [OF h]
    by (simp add: run_defs is_network_def is_cache_def)
qed



end
